theory Spec2Isabelle
  imports Complex_Main "HOL-Library.AList" "HOL-Library.Log_Nat" "HOL-Library.Multiset"
begin

section \<open>Priority planner: the task manager of \<^verbatim>\<open>do.py\<close>\<close>

text \<open>
  The development embeds the classes \<^verbatim>\<open>Task\<close> and \<^verbatim>\<open>TaskManager\<close>.
  Conventions of the embedding:
  \<^item> a \<^verbatim>\<open>datetime\<close> is naive or zone-aware and reads in microseconds, a \<^verbatim>\<open>timedelta\<close> is a
    number of microseconds;
  \<^item> a Python \<^verbatim>\<open>float\<close> is the rational it denotes, and each floating-point operation is
    the exact operation followed by the rounding to the nearest double;
  \<^item> a Python \<^verbatim>\<open>str\<close> is a \<open>string\<close>, one \<open>char\<close> per character, over the code points
    below 256;
  \<^item> the date functions the code calls but does not define are parameters, collected in
    the record \<open>env\<close>: \<^verbatim>\<open>dateparser.parse\<close> (\<open>None\<close> when it raises) and
    \<^verbatim>\<open>datetime.isoformat\<close>; the clock \<^verbatim>\<open>datetime.utcnow()\<close> and the generator
    \<^verbatim>\<open>uuid.uuid4()\<close> are arguments \<open>now\<close> and \<open>uid\<close> of the operations that read them;
  \<^item> an operation of the manager maps the manager to a pair: the outcome (\<open>Inl\<close> the
    exception raised, \<open>Inr\<close> the value returned) and the manager as the call leaves it, so
    that what a raising call has already mutated is visible.
\<close>

subsection \<open>Strings\<close>

text \<open>\<^verbatim>\<open>lower()\<close> on the code points below 256: the letters \<^verbatim>\<open>A\<close> to \<^verbatim>\<open>Z\<close> and the accented
  capitals 192 to 222, the multiplication sign 215 apart.\<close>

definition lower_char :: "char \<Rightarrow> char" where
  "lower_char c =
     (let n = (of_char c :: nat)
      in if (65 \<le> n \<and> n \<le> 90) \<or> (192 \<le> n \<and> n \<le> 222 \<and> n \<noteq> 215) then char_of (n + 32)
         else c)"

definition lower :: "string \<Rightarrow> string" where
  "lower s = map lower_char s"

fun startswith :: "string \<Rightarrow> string \<Rightarrow> bool" where
  "startswith s [] = True"
| "startswith [] (k # ks) = False"
| "startswith (c # cs) (k # ks) = (c = k \<and> startswith cs ks)"

text \<open>\<^verbatim>\<open>k in text\<close> on strings: \<open>k\<close> occurs in \<open>text\<close> as a contiguous substring.\<close>

fun str_in :: "string \<Rightarrow> string \<Rightarrow> bool" where
  "str_in k [] = (k = [])"
| "str_in k (c # cs) = (startswith (c # cs) k \<or> str_in k cs)"

definition any_in :: "string list \<Rightarrow> string \<Rightarrow> bool" where
  "any_in ks text = list_ex (\<lambda>k. str_in k text) ks"

text \<open>The characters \<^verbatim>\<open>str.split()\<close> splits at, among the code points below 256.\<close>

definition isspace :: "char \<Rightarrow> bool" where
  "isspace c =
     (let n = (of_char c :: nat)
      in (9 \<le> n \<and> n \<le> 13) \<or> (28 \<le> n \<and> n \<le> 32) \<or> n = 133 \<or> n = 160)"

text \<open>\<^verbatim>\<open>len(s.split())\<close>: the number of maximal runs of non-whitespace characters. The flag
  says whether the previous character belonged to a word.\<close>

fun count_words :: "bool \<Rightarrow> string \<Rightarrow> nat" where
  "count_words inw [] = 0"
| "count_words inw (c # cs) =
     (if isspace c then count_words False cs
      else (if inw then 0 else 1) + count_words True cs)"

definition split_len :: "string \<Rightarrow> nat" where
  "split_len s = count_words False s"

subsection \<open>Models\<close>

text \<open>
  A naive \<^verbatim>\<open>datetime\<close> is its wall-clock reading, in microseconds since 1970-01-01T00:00;
  a zone-aware one is its wall-clock reading and its offset from UTC. \<^verbatim>\<open>datetime.utcnow()\<close>
  returns a naive datetime: the operations that call it take its reading, \<open>now\<close>, as an
  argument of type \<open>int\<close>.
\<close>

datatype datetime = Naive int | Aware int int

type_synonym timedelta = int

text \<open>The errors the operations raise.\<close>

datatype error =
    KeyError
  | RuntimeError "string list"
  | ParserError string
  | JSONDecodeError
  | TypeError
  | OverflowError

text \<open>\<^verbatim>\<open>d - datetime.utcnow()\<close>: Python refuses to subtract a naive datetime from an aware
  one.\<close>

definition minus_now :: "datetime \<Rightarrow> int \<Rightarrow> error + timedelta" where
  "minus_now d now = (case d of Naive w \<Rightarrow> Inr (w - now) | Aware w off \<Rightarrow> Inl TypeError)"

text \<open>\<^verbatim>\<open>d.timestamp()\<close>, in microseconds, for a process whose local zone is UTC and a
  datetime away from the ends of the range of the type, where the library raises; the
  rounding of the timestamp to a float is left out. The heap keys are built from it.\<close>

definition timestamp :: "datetime \<Rightarrow> int" where
  "timestamp d = (case d of Naive w \<Rightarrow> w | Aware w off \<Rightarrow> w - off)"

definition hours :: "int \<Rightarrow> timedelta" where
  "hours n = n * 3600000000"

definition days :: "int \<Rightarrow> timedelta" where
  "days n = n * 86400000000"

record Task =
  priority :: int
  deadline :: "datetime option"
  task_id :: string
  title :: string
  description :: string
  created_at :: datetime
  completed :: bool
  progress :: int
  dependencies :: "string list"
  tags :: "string list"
  estimated_minutes :: "int option"
  auto_assigned :: bool
  reminded :: bool

text \<open>
  \<^verbatim>\<open>__post_init__\<close>: \<^verbatim>\<open>sort_index = (priority, deadline.timestamp() or float("inf"))\<close>.
  The only reader of \<^verbatim>\<open>sort_index\<close>, \<^verbatim>\<open>_push_heap\<close>, calls \<^verbatim>\<open>__post_init__\<close> first, so
  the field is a function of the task.
\<close>

datatype deadline_ts = Finite int | Infinity

definition sort_index :: "Task \<Rightarrow> int \<times> deadline_ts" where
  "sort_index t =
     (priority t, case deadline t of Some d \<Rightarrow> Finite (timestamp d) | None \<Rightarrow> Infinity)"

text \<open>
  The mapping \<^verbatim>\<open>to_dict\<close> builds and \<^verbatim>\<open>from_dict\<close> reads, each value at the type of the
  field it belongs to; \<open>None\<close> is a key that is absent (for the deadline and the estimate
  also a \<^verbatim>\<open>null\<close>).
\<close>

record task_dict =
  d_id :: "string option"
  d_title :: "string option"
  d_description :: "string option"
  d_priority :: "int option"
  d_deadline :: "string option"
  d_created_at :: "string option"
  d_completed :: "bool option"
  d_progress :: "int option"
  d_dependencies :: "string list option"
  d_tags :: "string list option"
  d_estimated_minutes :: "int option"
  d_auto_assigned :: "bool option"
  d_reminded :: "bool option"

text \<open>
  A JSON text is known by what \<^verbatim>\<open>json.loads\<close> makes of it: the document with the list under
  \<^verbatim>\<open>"tasks"\<close> (\<open>None\<close> when the key is absent), or nothing, when the text is not JSON.
  \<^verbatim>\<open>json.dumps\<close> writes the text that is read back as the document it was given.
\<close>

datatype json_text = Document "task_dict list option" | Malformed

definition json_dumps :: "task_dict list \<Rightarrow> json_text" where
  "json_dumps all_tasks = Document (Some all_tasks)"

definition json_loads :: "json_text \<Rightarrow> task_dict list option option" where
  "json_loads txt = (case txt of Document d \<Rightarrow> Some d | Malformed \<Rightarrow> None)"

record env =
  parse :: "string \<Rightarrow> datetime option"
  isoformat :: "datetime \<Rightarrow> string"

subsection \<open>The heuristic estimator and the natural-language stub\<close>

definition keyword_priority :: "string \<Rightarrow> int \<times> string list" where
  "keyword_priority text =
     (if any_in [''urgent'', ''asap'', ''immediately''] text then (1, [''urgent''])
      else if str_in ''high'' text \<or> str_in ''important'' text then (min 5 2, [''high''])
      else if str_in ''low'' text \<or> str_in ''whenever'' text then (max 5 7, [''low''])
      else (5, []))"

definition deadline_priority ::
  "int \<Rightarrow> datetime option \<Rightarrow> int \<times> string list \<Rightarrow> error + int \<times> string list" where
  "deadline_priority now user_deadline pt =
     (case user_deadline of
        None \<Rightarrow> Inr pt
      | Some d \<Rightarrow>
          (case minus_now d now of
             Inl err \<Rightarrow> Inl err
           | Inr delta \<Rightarrow>
               Inr (if delta \<le> hours 12 then (min (fst pt) 1, snd pt @ [''due_12h''])
                    else if delta \<le> hours 24 then (min (fst pt) 2, snd pt @ [''due_24h''])
                    else if delta \<le> days 3 then (min (fst pt) 3, snd pt @ [''due_3d''])
                    else pt)))"

definition auto_assign_priority_and_deadline ::
  "int \<Rightarrow> string \<Rightarrow> string \<Rightarrow> datetime option \<Rightarrow>
   error + int \<times> datetime option \<times> string list \<times> int" where
  "auto_assign_priority_and_deadline now ttl descr user_deadline =
     (let text = lower (ttl @ '' '' @ descr) in
      case deadline_priority now user_deadline (keyword_priority text) of
        Inl err \<Rightarrow> Inl err
      | Inr pt \<Rightarrow>
          (let words = int (split_len descr);
               est = max 15 (min (8 * (words div 20 + 1)) (8 * 10))
           in Inr (fst pt, user_deadline, snd pt, est)))"

record parsed =
  p_title :: string
  p_description :: string
  p_deadline :: "string option"
  p_priority_hint :: "string option"
  p_dependencies :: "string list"
  p_estimated_minutes :: "int option"

definition ai_parse_task :: "env \<Rightarrow> int \<Rightarrow> string \<Rightarrow> parsed" where
  "ai_parse_task e now natural_text =
     (let text = lower natural_text in
      \<lparr> p_title = (if length natural_text \<le> 60 then natural_text
                    else take 57 natural_text @ ''...''),
        p_description = natural_text,
        p_deadline = (if str_in ''tomorrow'' text then Some (isoformat e (Naive (now + days 1)))
                      else if str_in ''today'' text then Some (isoformat e (Naive now))
                      else None),
        p_priority_hint = (if any_in [''urgent'', ''asap'', ''immediately''] text
                           then Some ''urgent'' else None),
        p_dependencies = [],
        p_estimated_minutes = None \<rparr>)"

subsection \<open>The store and the priority index\<close>

text \<open>
  \<^verbatim>\<open>self.tasks\<close> is a Python \<^verbatim>\<open>dict\<close>, which keeps its keys in insertion order: an
  association list, read with \<open>map_of\<close>, written with \<open>AList.update\<close> (an existing key
  keeps its place, a new key goes to the end) and \<open>AList.delete\<close>.

  \<^verbatim>\<open>self.heap\<close> holds the entries \<^verbatim>\<open>(sort_index, id)\<close> and is only touched through
  \<^verbatim>\<open>heapq\<close>. Python compares the entries as tuples, lexicographically, which is a total
  order; so the heap is modelled by what \<^verbatim>\<open>heapq\<close> computes on it: the list of the entries
  in ascending order, \<^verbatim>\<open>heap[0]\<close> its head and \<^verbatim>\<open>heappop\<close> the removal of the head.
\<close>

type_synonym entry = "(int \<times> deadline_ts) \<times> string"

fun ts_less :: "deadline_ts \<Rightarrow> deadline_ts \<Rightarrow> bool" where
  "ts_less (Finite a) (Finite b) = (a < b)"
| "ts_less (Finite a) Infinity = True"
| "ts_less Infinity b = False"

fun str_less :: "string \<Rightarrow> string \<Rightarrow> bool" where
  "str_less [] [] = False"
| "str_less [] (d # ds) = True"
| "str_less (c # cs) [] = False"
| "str_less (c # cs) (d # ds) =
     ((of_char c :: nat) < of_char d \<or> (c = d \<and> str_less cs ds))"

fun entry_less :: "entry \<Rightarrow> entry \<Rightarrow> bool" where
  "entry_less ((p1, t1), i1) ((p2, t2), i2) =
     (p1 < p2 \<or> (p1 = p2 \<and> (ts_less t1 t2 \<or> (t1 = t2 \<and> str_less i1 i2))))"

fun heappush :: "entry list \<Rightarrow> entry \<Rightarrow> entry list" where
  "heappush [] e = [e]"
| "heappush (x # xs) e = (if entry_less x e then x # heappush xs e else e # x # xs)"

record manager =
  tasks :: "(string \<times> Task) list"
  heap :: "entry list"

definition init :: manager where
  "init = \<lparr> tasks = [], heap = [] \<rparr>"

definition push_heap :: "manager \<Rightarrow> Task \<Rightarrow> manager" where
  "push_heap m t = m\<lparr> heap := heappush (heap m) (sort_index t, task_id t) \<rparr>"

definition rebuild_heap :: "manager \<Rightarrow> manager" where
  "rebuild_heap m =
     fold (\<lambda>t m'. if \<not> completed t then push_heap m' t else m')
          (map snd (tasks m)) (m\<lparr> heap := [] \<rparr>)"

definition get_task :: "manager \<Rightarrow> string \<Rightarrow> Task option" where
  "get_task m tid = map_of (tasks m) tid"

text \<open>Mutating the task object found under \<open>tid\<close> is writing the new value under \<open>tid\<close>.\<close>

definition put_task :: "string \<Rightarrow> Task \<Rightarrow> manager \<Rightarrow> manager" where
  "put_task tid t m = m\<lparr> tasks := AList.update tid t (tasks m) \<rparr>"

subsection \<open>Floating-point numbers\<close>

text \<open>
  The rounding of a rational to the nearest double, ties to the even significand: the
  significand has 53 bits, so a number whose binary exponent is \<open>i\<close> is rounded to a
  multiple of \<open>2 powi (i - 52)\<close>. The datetimes of Python lie between the years 1 and 9999,
  which keeps the quotients below far from the ends of the exponent range; the conversion
  of an integer is the one operation here that can overflow.
\<close>

definition round_half_even :: "rat \<Rightarrow> int" where
  "round_half_even y =
     (let f = \<lfloor>y\<rfloor>; d = y - of_int f
      in if d < 1 / 2 then f else if 1 / 2 < d then f + 1 else if even f then f else f + 1)"

text \<open>The binary exponent of a positive rational, \<open>\<lfloor>log\<^sub>2 x\<rfloor>\<close>.\<close>

definition ilog2 :: "rat \<Rightarrow> int" where
  "ilog2 x =
     (case quotient_of x of
        (n, d) \<Rightarrow> let g = bitlen n - bitlen d in if 2 powi g \<le> x then g else g - 1)"

definition round_pos :: "rat \<Rightarrow> rat" where
  "round_pos x = (let k = ilog2 x - 52 in of_int (round_half_even (x / 2 powi k)) * 2 powi k)"

definition round_double :: "rat \<Rightarrow> rat" where
  "round_double x = (if x = 0 then 0 else if 0 < x then round_pos x else - round_pos (- x))"

text \<open>A rounded value is a double when its binary exponent is below 1024. The conversion
  of an \<^verbatim>\<open>int\<close> operand to \<^verbatim>\<open>float\<close> raises when the integer rounds to none.\<close>

definition in_range :: "rat \<Rightarrow> bool" where
  "in_range x = (x = 0 \<or> ilog2 \<bar>x\<bar> < 1024)"

definition float_of_int :: "int \<Rightarrow> error + rat" where
  "float_of_int p =
     (let x = round_double (of_int p) in if in_range x then Inr x else Inl OverflowError)"

subsection \<open>The global schedule\<close>

text \<open>
  \<^verbatim>\<open>total_seconds()\<close> divides the microseconds by \<open>10\<^sup>6\<close>, the code divides by 3600 and by
  24.0 and adds the priority: four floating-point operations for a task with a deadline in
  the future. \<open>deadline_score\<close> is the value of the variable of that name, the integer
  \<open>0\<close> or \<open>-1000\<close> or a float.
\<close>

definition deadline_score :: "int \<Rightarrow> Task \<Rightarrow> error + rat" where
  "deadline_score now t =
     (case deadline t of
        None \<Rightarrow> Inr 0
      | Some d \<Rightarrow>
          (case minus_now d now of
             Inl err \<Rightarrow> Inl err
           | Inr td \<Rightarrow>
               (let delta = round_double (of_int td / 1000000)
                in Inr (if delta \<le> 0 then - 1000 else round_double (delta / (60 * 60))))))"

definition score :: "int \<Rightarrow> Task \<Rightarrow> error + rat" where
  "score now t =
     (case deadline_score now t of
        Inl err \<Rightarrow> Inl err
      | Inr ds \<Rightarrow>
          (case float_of_int (priority t) of
             Inl err \<Rightarrow> Inl err
           | Inr p \<Rightarrow> Inr (round_double (p + round_double (ds / 24)))))"

text \<open>The loop that fills \<^verbatim>\<open>score_list\<close>; it stops at the first task whose score raises.\<close>

fun score_all :: "int \<Rightarrow> Task list \<Rightarrow> error + (rat \<times> Task) list" where
  "score_all now [] = Inr []"
| "score_all now (t # ts) =
     (if completed t then score_all now ts
      else (case score now t of
              Inl err \<Rightarrow> Inl err
            | Inr sc \<Rightarrow>
                (case score_all now ts of
                   Inl err \<Rightarrow> Inl err
                 | Inr score_list \<Rightarrow> Inr ((sc, t) # score_list))))"

text \<open>\<^verbatim>\<open>list.sort(key=...)\<close> is a stable sort, as \<open>sort_key\<close> is.\<close>

definition ai_schedule :: "int \<Rightarrow> manager \<Rightarrow> error + string list" where
  "ai_schedule now m =
     (case score_all now (map snd (tasks m)) of
        Inl err \<Rightarrow> Inl err
      | Inr score_list \<Rightarrow> Inr (map (\<lambda>x. task_id (snd x)) (sort_key fst score_list)))"

subsection \<open>Creating, updating and deleting tasks\<close>

definition truthy :: "string option \<Rightarrow> bool" where
  "truthy v = (case v of None \<Rightarrow> False | Some s \<Rightarrow> s \<noteq> [])"

text \<open>\<^verbatim>\<open>dateparser.parse(v) if v else None\<close>\<close>

definition parse_opt :: "env \<Rightarrow> string option \<Rightarrow> error + datetime option" where
  "parse_opt e v =
     (case v of
        None \<Rightarrow> Inr None
      | Some s \<Rightarrow>
          if s = [] then Inr None
          else (case parse e s of None \<Rightarrow> Inl (ParserError s) | Some d \<Rightarrow> Inr (Some d)))"

definition add_deps :: "string list \<Rightarrow> string list \<Rightarrow> string list" where
  "add_deps deps ds = fold (\<lambda>dep_id ds'. if dep_id \<in> set ds' then ds' else ds' @ [dep_id]) deps ds"

text \<open>The block \<^verbatim>\<open>if from_nlp:\<close> of \<^verbatim>\<open>add_task\<close>: the title, the description, the deadline
  text and the priority as it leaves them.\<close>

definition nlp_assist ::
  "env \<Rightarrow> int \<Rightarrow> bool \<Rightarrow> string \<Rightarrow> string \<Rightarrow> string option \<Rightarrow> int option \<Rightarrow>
   string \<times> string \<times> string option \<times> int option" where
  "nlp_assist e now from_nlp ttl descr deadline_iso prio =
     (if from_nlp then
        (let p = ai_parse_task e now (if descr = [] then ttl else ttl @ '' '' @ descr)
         in (p_title p, p_description p,
             (if truthy (p_deadline p) \<and> \<not> truthy deadline_iso then p_deadline p
              else deadline_iso),
             (if truthy (p_priority_hint p) \<and> prio = None \<and> p_priority_hint p = Some ''urgent''
              then Some 1 else prio)))
      else (ttl, descr, deadline_iso, prio))"

text \<open>The block \<^verbatim>\<open>if priority is None: ... else: ...\<close> and the call \<^verbatim>\<open>Task(...)\<close>.\<close>

definition new_task ::
  "string \<Rightarrow> int \<Rightarrow> string \<Rightarrow> string \<Rightarrow> datetime option \<Rightarrow> int option \<Rightarrow>
   string list option \<Rightarrow> int option \<Rightarrow> error + Task" where
  "new_task uid now ttl descr dl prio tgs minutes =
     (case prio of
        None \<Rightarrow>
          (case auto_assign_priority_and_deadline now ttl descr dl of
             Inl err \<Rightarrow> Inl err
           | Inr (prio', deadline_auto, auto_tags, est) \<Rightarrow>
               Inr \<lparr> priority = prio',
                     deadline = (if dl = None \<and> deadline_auto \<noteq> None then deadline_auto
                                 else dl),
                     task_id = uid, title = ttl, description = descr,
                     created_at = Naive now, completed = False, progress = 0,
                     dependencies = [], tags = auto_tags,
                     estimated_minutes = Some est, auto_assigned = True,
                     reminded = False \<rparr>)
      | Some prio' \<Rightarrow>
          Inr \<lparr> priority = prio', deadline = dl,
                task_id = uid, title = ttl, description = descr,
                created_at = Naive now, completed = False, progress = 0,
                dependencies = [],
                tags = (case tgs of None \<Rightarrow> [] | Some l \<Rightarrow> l),
                estimated_minutes = minutes, auto_assigned = False,
                reminded = False \<rparr>)"

definition add_task ::
  "env \<Rightarrow> string \<Rightarrow> int \<Rightarrow> string \<Rightarrow> string \<Rightarrow> string option \<Rightarrow> int option \<Rightarrow>
   string list option \<Rightarrow> bool \<Rightarrow> string list option \<Rightarrow> int option \<Rightarrow> manager \<Rightarrow>
   (error + Task) \<times> manager" where
  "add_task e uid now ttl0 descr0 deadline_iso0 priority0 deps from_nlp tgs minutes m =
     (case nlp_assist e now from_nlp ttl0 descr0 deadline_iso0 priority0 of
        (ttl, descr, deadline_iso, prio) \<Rightarrow>
          (case parse_opt e deadline_iso of
             Inl err \<Rightarrow> (Inl err, m)
           | Inr dl \<Rightarrow>
               (case new_task uid now ttl descr dl prio tgs minutes of
                  Inl err \<Rightarrow> (Inl err, m)
                | Inr t \<Rightarrow>
                    (let m1 = push_heap (put_task (task_id t) t m) t;
                         t' = t\<lparr> dependencies :=
                                  add_deps (case deps of None \<Rightarrow> [] | Some l \<Rightarrow> l)
                                           (dependencies t) \<rparr>
                     in (Inr t', put_task (task_id t) t' m1)))))"

text \<open>
  The keyword arguments of \<^verbatim>\<open>update_task\<close>, in the order the caller gave them. A name is
  recognised when the task has an attribute of that name; the constructors are the fields
  of the class, and \<open>Other\<close> is a name that is no attribute of the task.
\<close>

datatype field =
    Deadline "string option"
  | Priority int
  | Task_id string
  | Title string
  | Description string
  | Created_at datetime
  | Completed bool
  | Progress int
  | Dependencies "string list"
  | Tags "string list"
  | Estimated_minutes "int option"
  | Auto_assigned bool
  | Reminded bool
  | Other string

fun set_field :: "env \<Rightarrow> field \<Rightarrow> Task \<Rightarrow> error + Task" where
  "set_field e (Deadline v) t =
     (case parse_opt e v of Inl err \<Rightarrow> Inl err | Inr d \<Rightarrow> Inr (t\<lparr> deadline := d \<rparr>))"
| "set_field e (Priority v) t = Inr (t\<lparr> priority := v \<rparr>)"
| "set_field e (Task_id v) t = Inr (t\<lparr> task_id := v \<rparr>)"
| "set_field e (Title v) t = Inr (t\<lparr> title := v \<rparr>)"
| "set_field e (Description v) t = Inr (t\<lparr> description := v \<rparr>)"
| "set_field e (Created_at v) t = Inr (t\<lparr> created_at := v \<rparr>)"
| "set_field e (Completed v) t = Inr (t\<lparr> completed := v \<rparr>)"
| "set_field e (Progress v) t = Inr (t\<lparr> progress := v \<rparr>)"
| "set_field e (Dependencies v) t = Inr (t\<lparr> dependencies := v \<rparr>)"
| "set_field e (Tags v) t = Inr (t\<lparr> tags := v \<rparr>)"
| "set_field e (Estimated_minutes v) t = Inr (t\<lparr> estimated_minutes := v \<rparr>)"
| "set_field e (Auto_assigned v) t = Inr (t\<lparr> auto_assigned := v \<rparr>)"
| "set_field e (Reminded v) t = Inr (t\<lparr> reminded := v \<rparr>)"
| "set_field e (Other k) t = Inr t"

text \<open>The loop over the keyword arguments; a raise leaves the task as the fields before
  it made it.\<close>

fun set_fields :: "env \<Rightarrow> field list \<Rightarrow> Task \<Rightarrow> error option \<times> Task" where
  "set_fields e [] t = (None, t)"
| "set_fields e (f # fs) t =
     (case set_field e f t of Inl err \<Rightarrow> (Some err, t) | Inr t' \<Rightarrow> set_fields e fs t')"

definition update_task ::
  "env \<Rightarrow> string \<Rightarrow> field list \<Rightarrow> manager \<Rightarrow> (error + Task) \<times> manager" where
  "update_task e tid kwargs m =
     (case get_task m tid of
        None \<Rightarrow> (Inl KeyError, m)
      | Some t \<Rightarrow>
          (case set_fields e kwargs t of
             (Some err, t') \<Rightarrow> (Inl err, put_task tid t' m)
           | (None, t') \<Rightarrow> (Inr t', rebuild_heap (put_task tid t' m))))"


subsection \<open>Reading the index\<close>

fun peek_scan :: "(string \<times> Task) list \<Rightarrow> entry list \<Rightarrow> Task option \<times> entry list" where
  "peek_scan ts [] = (None, [])"
| "peek_scan ts (x # h) =
     (case map_of ts (snd x) of
        None \<Rightarrow> peek_scan ts h
      | Some t \<Rightarrow> if completed t then peek_scan ts h else (Some t, x # h))"

definition peek_next :: "manager \<Rightarrow> Task option \<times> manager" where
  "peek_next m = (case peek_scan (tasks m) (heap m) of (r, h) \<Rightarrow> (r, m\<lparr> heap := h \<rparr>))"

fun pop_scan :: "(string \<times> Task) list \<Rightarrow> entry list \<Rightarrow> Task option \<times> entry list" where
  "pop_scan ts [] = (None, [])"
| "pop_scan ts (x # h) =
     (case map_of ts (snd x) of
        None \<Rightarrow> pop_scan ts h
      | Some t \<Rightarrow> if \<not> completed t then (Some t, h) else pop_scan ts h)"

definition pop_next :: "manager \<Rightarrow> Task option \<times> manager" where
  "pop_next m = (case pop_scan (tasks m) (heap m) of (r, h) \<Rightarrow> (r, m\<lparr> heap := h \<rparr>))"

subsection \<open>Progress and completion\<close>

definition set_progress :: "string \<Rightarrow> int \<Rightarrow> manager \<Rightarrow> (error + unit) \<times> manager" where
  "set_progress tid prog m =
     (case get_task m tid of
        None \<Rightarrow> (Inl KeyError, m)
      | Some t \<Rightarrow>
          (let t1 = t\<lparr> progress := max 0 (min 100 prog) \<rparr>;
               t2 = (if progress t1 = 100 then t1\<lparr> completed := True \<rparr> else t1)
           in (Inr (), rebuild_heap (put_task tid t2 m))))"

definition unmet_deps :: "manager \<Rightarrow> Task \<Rightarrow> string list" where
  "unmet_deps m t =
     filter (\<lambda>d. case map_of (tasks m) d of None \<Rightarrow> True | Some dt \<Rightarrow> \<not> completed dt)
            (dependencies t)"

definition complete_task :: "string \<Rightarrow> manager \<Rightarrow> (error + unit) \<times> manager" where
  "complete_task tid m =
     (case get_task m tid of
        None \<Rightarrow> (Inl KeyError, m)
      | Some t \<Rightarrow>
          (let unmet = unmet_deps m t in
           if unmet \<noteq> [] then (Inl (RuntimeError unmet), m)
           else (Inr (), rebuild_heap (put_task tid (t\<lparr> completed := True, progress := 100 \<rparr>) m))))"

subsection \<open>Export and import\<close>

definition to_dict :: "env \<Rightarrow> Task \<Rightarrow> task_dict" where
  "to_dict e t =
     \<lparr> d_id = Some (task_id t),
       d_title = Some (title t),
       d_description = Some (description t),
       d_priority = Some (priority t),
       d_deadline = map_option (isoformat e) (deadline t),
       d_created_at = Some (isoformat e (created_at t)),
       d_completed = Some (completed t),
       d_progress = Some (progress t),
       d_dependencies = Some (dependencies t),
       d_tags = Some (tags t),
       d_estimated_minutes = estimated_minutes t,
       d_auto_assigned = Some (auto_assigned t),
       d_reminded = Some (reminded t) \<rparr>"

definition get_or :: "'a option \<Rightarrow> 'a \<Rightarrow> 'a" where
  "get_or v dflt = (case v of None \<Rightarrow> dflt | Some x \<Rightarrow> x)"

definition from_dict :: "env \<Rightarrow> string \<Rightarrow> int \<Rightarrow> task_dict \<Rightarrow> error + Task" where
  "from_dict e uid now d =
     (case parse_opt e (d_deadline d) of
        Inl err \<Rightarrow> Inl err
      | Inr dl \<Rightarrow>
          (case parse_opt e (d_created_at d) of
             Inl err \<Rightarrow> Inl err
           | Inr cr \<Rightarrow>
               Inr \<lparr> priority = get_or (d_priority d) 5,
                     deadline = dl,
                     task_id = get_or (d_id d) uid,
                     title = get_or (d_title d) [],
                     description = get_or (d_description d) [],
                     created_at = get_or cr (Naive now),
                     completed = get_or (d_completed d) False,
                     progress = get_or (d_progress d) 0,
                     dependencies = get_or (d_dependencies d) [],
                     tags = get_or (d_tags d) [],
                     estimated_minutes = d_estimated_minutes d,
                     auto_assigned = get_or (d_auto_assigned d) False,
                     reminded = get_or (d_reminded d) False \<rparr>))"

definition export_json :: "env \<Rightarrow> manager \<Rightarrow> json_text" where
  "export_json e m = json_dumps (map (to_dict e) (map snd (tasks m)))"

text \<open>The loop of \<^verbatim>\<open>import_json\<close>; the \<open>i\<close>-th record reads the identifier \<open>uids i\<close> and
  the clock \<open>nows i\<close>. A raise leaves the store as the records before it made it.\<close>

fun load_tasks ::
  "env \<Rightarrow> (nat \<Rightarrow> string) \<Rightarrow> (nat \<Rightarrow> int) \<Rightarrow> nat \<Rightarrow> task_dict list \<Rightarrow>
   (string \<times> Task) list \<Rightarrow> error option \<times> (string \<times> Task) list" where
  "load_tasks e uids nows i [] acc = (None, acc)"
| "load_tasks e uids nows i (td # tds) acc =
     (case from_dict e (uids i) (nows i) td of
        Inl err \<Rightarrow> (Some err, acc)
      | Inr t \<Rightarrow> load_tasks e uids nows (Suc i) tds (AList.update (task_id t) t acc))"

definition import_json ::
  "env \<Rightarrow> (nat \<Rightarrow> string) \<Rightarrow> (nat \<Rightarrow> int) \<Rightarrow> json_text \<Rightarrow> manager \<Rightarrow>
   (error + unit) \<times> manager" where
  "import_json e uids nows json_str m =
     (case json_loads json_str of
        None \<Rightarrow> (Inl JSONDecodeError, m)
      | Some data \<Rightarrow>
          (case load_tasks e uids nows 0 (get_or data []) [] of
             (Some err, ts) \<Rightarrow> (Inl err, m\<lparr> tasks := ts \<rparr>)
           | (None, ts) \<Rightarrow> (Inr (), rebuild_heap (m\<lparr> tasks := ts \<rparr>))))"

subsection \<open>Properties of stores\<close>

text \<open>A heap entry is active when its identifier is the key of a task that is not
  completed: the entries the scans of \<open>peek_next\<close> and \<open>pop_next\<close> stop at.\<close>

definition is_active :: "(string \<times> Task) list \<Rightarrow> entry \<Rightarrow> bool" where
  "is_active ts x = (case map_of ts (snd x) of None \<Rightarrow> False | Some t \<Rightarrow> \<not> completed t)"

definition active_tasks :: "manager \<Rightarrow> Task list" where
  "active_tasks m = filter (\<lambda>t. \<not> completed t) (map snd (tasks m))"

text \<open>The dependency \<open>d\<close> resolves to an existing, completed task.\<close>

definition dep_met :: "manager \<Rightarrow> string \<Rightarrow> bool" where
  "dep_met m d = (case get_task m d of None \<Rightarrow> False | Some dt \<Rightarrow> completed dt)"





text \<open>The date parser reads the ISO text of \<open>d\<close> back as \<open>d\<close>.\<close>

definition date_roundtrip :: "env \<Rightarrow> datetime \<Rightarrow> bool" where
  "date_roundtrip e d = (isoformat e d \<noteq> [] \<and> parse e (isoformat e d) = Some d)"

definition dates_roundtrip :: "env \<Rightarrow> Task \<Rightarrow> bool" where
  "dates_roundtrip e t =
     (date_roundtrip e (created_at t)
      \<and> (case deadline t of None \<Rightarrow> True | Some d \<Rightarrow> date_roundtrip e d))"

text \<open>Every task is stored under its own identifier, once.\<close>

definition keyed_by_id :: "manager \<Rightarrow> bool" where
  "keyed_by_id m =
     (distinct (map fst (tasks m)) \<and> list_all (\<lambda>kt. task_id (snd kt) = fst kt) (tasks m))"

text \<open>The deadline is absent or naive, and the priority converts to a float: the tasks
  whose score the code can compute.\<close>

definition naive_or_none :: "datetime option \<Rightarrow> bool" where
  "naive_or_none dl = (case dl of None \<Rightarrow> True | Some (Naive w) \<Rightarrow> True | Some (Aware w off) \<Rightarrow> False)"

definition scorable :: "Task \<Rightarrow> bool" where
  "scorable t = (naive_or_none (deadline t) \<and> in_range (round_double (of_int (priority t))))"

text \<open>
  The score in closed form, each operation rounded: the priority plus the urgency over 24,
  the urgency being \<open>-1000\<close> for a deadline at or before now and the hours that remain for a
  later one. \<open>spec_score\<close> is the same score as the specification words it, with \<open>-1000\<close>
  only for a deadline strictly in the past; \<open>spec_schedule\<close> ranks the tasks that are not
  completed by it.
\<close>

definition hours_left :: "int \<Rightarrow> datetime \<Rightarrow> rat" where
  "hours_left now d =
     round_double (round_double (of_int (timestamp d - now) / 1000000) / 3600)"

definition float_score :: "int \<Rightarrow> Task \<Rightarrow> rat" where
  "float_score now t =
     round_double
       (round_double (of_int (priority t))
        + round_double
            ((case deadline t of
                None \<Rightarrow> 0
              | Some d \<Rightarrow> if timestamp d \<le> now then - 1000 else hours_left now d) / 24))"

definition spec_score :: "int \<Rightarrow> Task \<Rightarrow> rat" where
  "spec_score now t =
     round_double
       (round_double (of_int (priority t))
        + round_double
            ((case deadline t of
                None \<Rightarrow> 0
              | Some d \<Rightarrow> if timestamp d < now then - 1000 else hours_left now d) / 24))"

definition spec_schedule :: "int \<Rightarrow> manager \<Rightarrow> string list" where
  "spec_schedule now m = map task_id (sort_key (spec_score now) (active_tasks m))"


subsection \<open>Example stores\<close>

definition day0 :: string where
  "day0 = ''1970-01-01T00:00:00''"

definition day1 :: string where
  "day1 = ''1970-01-02T00:00:00''"

definition day0_utc :: string where
  "day0_utc = ''1970-01-01T00:00:00+00:00''"

text \<open>A date parser and an ISO writer that agree with the library on the three texts above;
  the third text carries a zone, and parses to an aware datetime.\<close>

definition example_env :: env where
  "example_env =
     \<lparr> parse = (\<lambda>s. if s = day0 then Some (Naive 0)
                     else if s = day1 then Some (Naive (days 1))
                     else if s = day0_utc then Some (Aware 0 0)
                     else None),
       isoformat = (\<lambda>d. if d = Naive 0 then day0
                         else if d = Naive (days 1) then day1
                         else if d = Aware 0 0 then day0_utc
                         else ''0001-01-01T00:00:00'') \<rparr>"

text \<open>One task \<^verbatim>\<open>a\<close> of priority 5 that depends on \<^verbatim>\<open>x\<close>, which the store does not hold.\<close>

definition store_a :: manager where
  "store_a = snd (add_task example_env ''a'' 0 ''Write report'' [] None (Some 5)
                    (Some [''x'']) False None None init)"

text \<open>Then a second task \<^verbatim>\<open>b\<close> of priority 1, due at \<open>day1\<close>, without dependencies.\<close>

definition store_ab :: manager where
  "store_ab = snd (add_task example_env ''b'' 0 ''Call the team'' [] (Some day1) (Some 1)
                     None False None None store_a)"

text \<open>The task \<^verbatim>\<open>b\<close> renamed to \<^verbatim>\<open>a\<close> by an update.\<close>

definition store_dup :: manager where
  "store_dup = snd (update_task example_env ''b'' [Task_id ''a''] store_ab)"

text \<open>A task \<^verbatim>\<open>y\<close> of priority 1 without a deadline, then a task \<^verbatim>\<open>x\<close> of priority 5 due
  at the instant \<open>0\<close>.\<close>

definition store_yx :: manager where
  "store_yx =
     snd (add_task example_env ''x'' 0 ''Pay invoice'' [] (Some day0) (Some 5)
            None False None None
         (snd (add_task example_env ''y'' 0 ''Read book'' [] None (Some 1)
            None False None None init)))"


text \<open>A task \<^verbatim>\<open>free\<close> of priority 1 without a deadline, then a task \<^verbatim>\<open>late\<close> of priority 5
  due at \<open>day1\<close>.\<close>

definition store_sched :: manager where
  "store_sched =
     snd (add_task example_env ''late'' 0 ''File taxes'' [] (Some day1) (Some 5)
            None False None None
         (snd (add_task example_env ''free'' 0 ''Tidy desk'' [] None (Some 1)
            None False None None init)))"

text \<open>A task \<^verbatim>\<open>far\<close> of priority 1 due at \<open>day1\<close>, then a task \<^verbatim>\<open>near\<close> of priority 2 due
  at \<open>day0\<close>: one hour before \<open>day0\<close> their exact scores are both \<open>2 + 1/24\<close>.\<close>

definition store_tie :: manager where
  "store_tie =
     snd (add_task example_env ''near'' 0 ''Water plants'' [] (Some day0) (Some 2)
            None False None None
         (snd (add_task example_env ''far'' 0 ''Renew pass'' [] (Some day1) (Some 1)
            None False None None init)))"

text \<open>A task \<^verbatim>\<open>z\<close> whose deadline carries a zone.\<close>

definition store_aware :: manager where
  "store_aware = snd (add_task example_env ''z'' 0 ''Join call'' [] (Some day0_utc) (Some 3)
                        None False None None init)"






section \<open>Rounding\<close>

lemma bitlen_ge_one:
  assumes "0 < n"
  shows "1 \<le> bitlen n"
proof (rule ccontr)
  assume "\<not> 1 \<le> bitlen n"
  then have "nat (bitlen n) = 0" by simp
  with bitlen_bounds [OF assms] have "n < 1" by simp
  with assms show False by simp
qed

lemma ilog2_le:
  assumes "0 < x"
  shows "2 powi (ilog2 x) \<le> x"
proof -
  obtain n d where q: "quotient_of x = (n, d)" by (cases "quotient_of x")
  then have d: "0 < d" and x: "x = of_int n / of_int d"
    by (simp_all add: quotient_of_denom_pos quotient_of_div)
  from assms d x have n: "0 < n" by (simp add: zero_less_divide_iff)
  let ?g = "bitlen n - bitlen d"
  show ?thesis
  proof (cases "2 powi ?g \<le> x")
    case True
    then show ?thesis by (simp add: ilog2_def q)
  next
    case False
    from bitlen_bounds [OF n] have "(2::int) ^ nat (bitlen n - 1) \<le> n" by simp
    then have "(of_int ((2::int) ^ nat (bitlen n - 1)) :: rat) \<le> of_int n"
      by (simp only: of_int_le_iff)
    then have a: "(2::rat) ^ nat (bitlen n - 1) \<le> of_int n" by simp
    from bitlen_bounds [OF d] have "d < (2::int) ^ nat (bitlen d)" by simp
    then have "(of_int d :: rat) < of_int ((2::int) ^ nat (bitlen d))"
      by (simp only: of_int_less_iff)
    then have b: "(of_int d :: rat) \<le> 2 ^ nat (bitlen d)" by simp
    have bn: "1 \<le> bitlen n" by (rule bitlen_ge_one [OF n])
    have bd: "0 \<le> bitlen d" by (rule bitlen_nonneg)
    have "?g - 1 = (bitlen n - 1) - bitlen d" by simp
    then have "(2::rat) powi (?g - 1) = 2 powi ((bitlen n - 1) - bitlen d)"
      by (rule arg_cong)
    also have "\<dots> = 2 powi (bitlen n - 1) / 2 powi (bitlen d)"
      by (rule power_int_diff) simp
    also have "\<dots> = 2 ^ nat (bitlen n - 1) / 2 ^ nat (bitlen d)"
      using bn bd by (simp add: power_int_def)
    also have "\<dots> \<le> of_int n / of_int d"
      using a b d n by (intro frac_le) simp_all
    finally have "(2::rat) powi (?g - 1) \<le> x" by (simp add: x)
    with False show ?thesis by (simp add: ilog2_def q)
  qed
qed

lemma round_half_even_ge_one:
  assumes "1 \<le> y"
  shows "1 \<le> round_half_even y"
proof -
  from assms have "1 \<le> \<lfloor>y\<rfloor>" by simp
  then show ?thesis by (simp add: round_half_even_def Let_def)
qed

lemma round_pos_pos:
  assumes "0 < x"
  shows "0 < round_pos x"
proof -
  let ?k = "ilog2 x - 52"
  have p: "(0::rat) < 2 powi ?k" by (simp add: zero_less_power_int)
  have "(2::rat) powi ?k = 2 powi (ilog2 x) / 2 powi 52"
    by (simp add: power_int_diff)
  also have "\<dots> \<le> 2 powi (ilog2 x)" by (simp add: zero_less_power_int divide_le_eq)
  also have "\<dots> \<le> x" by (rule ilog2_le [OF assms])
  finally have "1 \<le> x / 2 powi ?k" using p by (simp add: le_divide_eq)
  then have "1 \<le> round_half_even (x / 2 powi ?k)" by (rule round_half_even_ge_one)
  then have "(0::rat) < of_int (round_half_even (x / 2 powi ?k))" by simp
  with p show ?thesis by (simp add: round_pos_def Let_def)
qed

lemma round_double_le_zero: "(round_double x \<le> 0) = (x \<le> 0)"
  using round_pos_pos [of x] round_pos_pos [of "- x"]
  by (auto simp: round_double_def not_le dest: less_imp_le)

section \<open>The heuristic estimator\<close>








section \<open>The natural-language stub\<close>

text \<open>
  Claim C9. A text whose lower-cased form contains \<^verbatim>\<open>tomorrow\<close> gets the deadline now + 1
  day (as ISO text), also when it contains \<^verbatim>\<open>today\<close> as well; a text that contains
  \<^verbatim>\<open>today\<close> and not \<^verbatim>\<open>tomorrow\<close> gets the current instant.
\<close>

theorem parse_stub_tomorrow_first:
  "(str_in ''tomorrow'' (lower txt) \<longrightarrow>
      p_deadline (ai_parse_task e now txt) = Some (isoformat e (Naive (now + days 1))))
   \<and> (str_in ''today'' (lower txt) \<and> \<not> str_in ''tomorrow'' (lower txt) \<longrightarrow>
      p_deadline (ai_parse_task e now txt) = Some (isoformat e (Naive now)))"
  by (simp add: ai_parse_task_def Let_def)

theorem parse_stub_tomorrow_first_witness:
  "str_in ''tomorrow'' (lower ''Call Bob today or Tomorrow'')
   \<and> str_in ''today'' (lower ''Call Bob today or Tomorrow'')
   \<and> p_deadline (ai_parse_task example_env 0 ''Call Bob today or Tomorrow'') = Some day1
   \<and> str_in ''today'' (lower ''Call Bob Today'')
   \<and> \<not> str_in ''tomorrow'' (lower ''Call Bob Today'')
   \<and> p_deadline (ai_parse_task example_env 0 ''Call Bob Today'') = Some day0"
proof -
  have a: "str_in ''tomorrow'' (lower ''Call Bob today or Tomorrow'')" by code_simp
  have b: "str_in ''today'' (lower ''Call Bob today or Tomorrow'')" by code_simp
  have c: "str_in ''today'' (lower ''Call Bob Today'')" by code_simp
  have d: "\<not> str_in ''tomorrow'' (lower ''Call Bob Today'')" by code_simp
  have i1: "isoformat example_env (Naive (0 + days 1)) = day1"
    by (simp add: example_env_def days_def)
  have i0: "isoformat example_env (Naive 0) = day0"
    by (simp add: example_env_def)
  from parse_stub_tomorrow_first [of "''Call Bob today or Tomorrow''" example_env 0] a i1
  have "p_deadline (ai_parse_task example_env 0 ''Call Bob today or Tomorrow'') = Some day1"
    by simp
  moreover from parse_stub_tomorrow_first [of "''Call Bob Today''" example_env 0] c d i0
  have "p_deadline (ai_parse_task example_env 0 ''Call Bob Today'') = Some day0"
    by simp
  ultimately show ?thesis using a b c d by blast
qed

section \<open>Dependency-gated completion\<close>

lemma tasks_push_heap: "tasks (push_heap m t) = tasks m"
  by (simp add: push_heap_def)

lemma tasks_fold_push:
  "tasks (fold (\<lambda>t m'. if \<not> completed t then push_heap m' t else m') xs m) = tasks m"
  by (induction xs arbitrary: m) (simp_all add: tasks_push_heap)

lemma tasks_rebuild_heap: "tasks (rebuild_heap m) = tasks m"
  by (simp add: rebuild_heap_def tasks_fold_push)

lemma get_task_rebuild_heap: "get_task (rebuild_heap m) k = get_task m k"
  by (simp add: get_task_def tasks_rebuild_heap)

lemma get_task_put_task: "get_task (put_task tid t m) k = (if k = tid then Some t else get_task m k)"
  by (simp add: get_task_def put_task_def update_conv')

text \<open>
  Claim C3. \<open>complete_task\<close> raises \<^verbatim>\<open>KeyError\<close> and changes nothing when the identifier is
  not in the store. When the task exists, the unmet dependencies are the identifiers of its
  list, in order, that do not resolve to an existing completed task: if there is one, the
  call raises the error that carries exactly that list and leaves the manager as it was;
  if there is none, the call returns, the task is completed with progress 100, and the
  other tasks are as before.
\<close>

theorem complete_task_cases:
  "(get_task m tid = None \<longrightarrow> complete_task tid m = (Inl KeyError, m))
   \<and> (\<forall>t. get_task m tid = Some t \<longrightarrow>
         (let unmet = filter (\<lambda>d. \<not> dep_met m d) (dependencies t)
          in if unmet \<noteq> []
             then complete_task tid m = (Inl (RuntimeError unmet), m)
             else fst (complete_task tid m) = Inr ()
                \<and> get_task (snd (complete_task tid m)) tid
                    = Some (t\<lparr> completed := True, progress := 100 \<rparr>)
                \<and> (\<forall>k. k \<noteq> tid \<longrightarrow> get_task (snd (complete_task tid m)) k = get_task m k)))"
proof (intro conjI allI impI)
  assume "get_task m tid = None"
  then show "complete_task tid m = (Inl KeyError, m)"
    by (simp add: complete_task_def)
next
  fix t assume t: "get_task m tid = Some t"
  have u: "filter (\<lambda>d. \<not> dep_met m d) (dependencies t) = unmet_deps m t"
    unfolding unmet_deps_def dep_met_def get_task_def
    by (rule filter_cong) (auto split: option.splits)
  show "let unmet = filter (\<lambda>d. \<not> dep_met m d) (dependencies t)
          in if unmet \<noteq> []
             then complete_task tid m = (Inl (RuntimeError unmet), m)
             else fst (complete_task tid m) = Inr ()
                \<and> get_task (snd (complete_task tid m)) tid
                    = Some (t\<lparr> completed := True, progress := 100 \<rparr>)
                \<and> (\<forall>k. k \<noteq> tid \<longrightarrow> get_task (snd (complete_task tid m)) k = get_task m k)"
    unfolding u Let_def using t
    by (simp add: complete_task_def Let_def get_task_rebuild_heap get_task_put_task)
qed

section \<open>Reading the index\<close>

lemma peek_scan_Some:
  "peek_scan ts h = (Some t, h') \<Longrightarrow>
     \<not> completed t \<and> (\<exists>x h''. h' = x # h'' \<and> map_of ts (snd x) = Some t)
     \<and> (\<exists>pre. h = pre @ h' \<and> (\<forall>y\<in>set pre. \<not> is_active ts y))"
proof (induction h)
  case Nil then show ?case by simp
next
  case (Cons x h)
  show ?case
  proof (cases "is_active ts x")
    case True
    with Cons.prems have a: "h' = x # h" "map_of ts (snd x) = Some t" "\<not> completed t"
      by (simp_all add: is_active_def split: option.splits if_splits)
    have "x # h = [] @ (x # h) \<and> (\<forall>y\<in>set []. \<not> is_active ts y)" by simp
    with a show ?thesis by blast
  next
    case False
    with Cons.prems have "peek_scan ts h = (Some t, h')"
      by (auto simp: is_active_def split: option.splits if_splits)
    from Cons.IH [OF this] obtain pre where
      a: "\<not> completed t" "\<exists>x h''. h' = x # h'' \<and> map_of ts (snd x) = Some t"
      and p: "h = pre @ h'" "\<forall>y\<in>set pre. \<not> is_active ts y" by blast
    from p False have "x # h = (x # pre) @ h' \<and> (\<forall>y\<in>set (x # pre). \<not> is_active ts y)" by simp
    with a show ?thesis by blast
  qed
qed

lemma peek_scan_None: "(fst (peek_scan ts h) = None) = (\<forall>y\<in>set h. \<not> is_active ts y)"
  by (induction h) (auto simp: is_active_def split: option.splits)

lemma peek_scan_None_heap: "fst (peek_scan ts h) = None \<Longrightarrow> snd (peek_scan ts h) = []"
  by (induction h) (auto split: option.splits if_splits)

lemma peek_scan_idem: "peek_scan ts (snd (peek_scan ts h)) = peek_scan ts h"
  by (induction h) (auto split: option.splits)

lemma pop_scan_Some:
  "pop_scan ts h = (Some t, h') \<Longrightarrow>
     \<not> completed t \<and> (\<exists>x\<in>set h. map_of ts (snd x) = Some t)"
  by (induction h) (auto split: option.splits if_splits)

lemma pop_scan_None: "(fst (pop_scan ts h) = None) = (\<forall>y\<in>set h. \<not> is_active ts y)"
  by (induction h) (auto simp: is_active_def split: option.splits)

lemma fst_peek_next: "fst (peek_next m) = fst (peek_scan (tasks m) (heap m))"
  by (simp add: peek_next_def split: prod.splits)

lemma snd_peek_next: "snd (peek_next m) = m\<lparr> heap := snd (peek_scan (tasks m) (heap m)) \<rparr>"
  by (simp add: peek_next_def split: prod.splits)

lemma fst_pop_next: "fst (pop_next m) = fst (pop_scan (tasks m) (heap m))"
  by (simp add: pop_next_def split: prod.splits)

text \<open>
  Claim C4. A task returned by \<open>peek_next\<close> or \<open>pop_next\<close> is not completed and is in the
  store, under the identifier of a heap entry. Each returns \<open>None\<close> exactly when no heap
  entry is active. \<open>peek_next\<close> leaves the store alone, drops only inactive entries from
  the front of the heap, and leaves the entry of the task it returns at the head; a second
  \<open>peek_next\<close> returns the same task and the same manager.
\<close>

theorem peek_pop_next:
  "(\<forall>t. fst (peek_next m) = Some t \<longrightarrow>
        \<not> completed t \<and> (\<exists>x\<in>set (heap m). get_task m (snd x) = Some t))
   \<and> (\<forall>t. fst (pop_next m) = Some t \<longrightarrow>
        \<not> completed t \<and> (\<exists>x\<in>set (heap m). get_task m (snd x) = Some t))
   \<and> (fst (peek_next m) = None) = (\<forall>x\<in>set (heap m). \<not> is_active (tasks m) x)
   \<and> (fst (pop_next m) = None) = (\<forall>x\<in>set (heap m). \<not> is_active (tasks m) x)
   \<and> tasks (snd (peek_next m)) = tasks m
   \<and> (\<forall>t. fst (peek_next m) = Some t \<longrightarrow>
        (\<exists>x h. heap (snd (peek_next m)) = x # h \<and> get_task m (snd x) = Some t))
   \<and> (\<exists>stale. heap m = stale @ heap (snd (peek_next m))
        \<and> (\<forall>x\<in>set stale. \<not> is_active (tasks m) x))
   \<and> peek_next (snd (peek_next m)) = peek_next m"
proof -
  obtain r h where ph: "peek_scan (tasks m) (heap m) = (r, h)" by (cases "peek_scan (tasks m) (heap m)")
  have pk: "peek_next m = (r, m\<lparr> heap := h \<rparr>)" by (simp add: peek_next_def ph)
  have c1: "\<forall>t. fst (peek_next m) = Some t \<longrightarrow>
        \<not> completed t \<and> (\<exists>x\<in>set (heap m). get_task m (snd x) = Some t)"
  proof (intro allI impI)
    fix t assume "fst (peek_next m) = Some t"
    with pk ph have "peek_scan (tasks m) (heap m) = (Some t, h)" by simp
    from peek_scan_Some [OF this] show "\<not> completed t \<and> (\<exists>x\<in>set (heap m). get_task m (snd x) = Some t)"
      by (auto simp: get_task_def)
  qed
  have c2: "\<forall>t. fst (pop_next m) = Some t \<longrightarrow>
        \<not> completed t \<and> (\<exists>x\<in>set (heap m). get_task m (snd x) = Some t)"
  proof (intro allI impI)
    fix t assume "fst (pop_next m) = Some t"
    then have "pop_scan (tasks m) (heap m) = (Some t, snd (pop_scan (tasks m) (heap m)))"
      by (simp add: fst_pop_next prod_eq_iff)
    from pop_scan_Some [OF this] show "\<not> completed t \<and> (\<exists>x\<in>set (heap m). get_task m (snd x) = Some t)"
      by (simp add: get_task_def)
  qed
  have c3: "(fst (peek_next m) = None) = (\<forall>x\<in>set (heap m). \<not> is_active (tasks m) x)"
    by (simp add: fst_peek_next peek_scan_None)
  have c4: "(fst (pop_next m) = None) = (\<forall>x\<in>set (heap m). \<not> is_active (tasks m) x)"
    by (simp add: fst_pop_next pop_scan_None)
  have c5: "tasks (snd (peek_next m)) = tasks m" by (simp add: pk)
  have c6: "\<forall>t. fst (peek_next m) = Some t \<longrightarrow>
        (\<exists>x h. heap (snd (peek_next m)) = x # h \<and> get_task m (snd x) = Some t)"
  proof (intro allI impI)
    fix t assume "fst (peek_next m) = Some t"
    with pk ph have "peek_scan (tasks m) (heap m) = (Some t, h)" by simp
    from peek_scan_Some [OF this] show "\<exists>x h. heap (snd (peek_next m)) = x # h \<and> get_task m (snd x) = Some t"
      by (auto simp: get_task_def pk)
  qed
  have c7: "\<exists>stale. heap m = stale @ heap (snd (peek_next m))
        \<and> (\<forall>x\<in>set stale. \<not> is_active (tasks m) x)"
  proof (cases r)
    case None
    with ph have n: "fst (peek_scan (tasks m) (heap m)) = None" by simp
    from peek_scan_None_heap [OF n] ph have "h = []" by simp
    moreover from n have "\<forall>y\<in>set (heap m). \<not> is_active (tasks m) y"
      by (simp only: peek_scan_None)
    ultimately show ?thesis by (simp add: pk)
  next
    case (Some t)
    with ph have "peek_scan (tasks m) (heap m) = (Some t, h)" by simp
    from peek_scan_Some [OF this] show ?thesis by (simp add: pk)
  qed
  have c8: "peek_next (snd (peek_next m)) = peek_next m"
    using peek_scan_idem [of "tasks m" "heap m"] by (simp add: pk peek_next_def ph)
  from c1 c2 c3 c4 c5 c6 c7 c8 show ?thesis by blast
qed


theorem complete_task_cases_witness:
  "get_task store_a ''zz'' = None
   \<and> complete_task ''zz'' store_a = (Inl KeyError, store_a)
   \<and> map_option dependencies (get_task store_a ''a'') = Some [''x'']
   \<and> \<not> dep_met store_a ''x''
   \<and> complete_task ''a'' store_a = (Inl (RuntimeError [''x'']), store_a)
   \<and> map_option dependencies (get_task store_ab ''b'') = Some []
   \<and> fst (complete_task ''b'' store_ab) = Inr ()
   \<and> map_option completed (get_task (snd (complete_task ''b'' store_ab)) ''b'') = Some True
   \<and> map_option progress (get_task (snd (complete_task ''b'' store_ab)) ''b'') = Some 100"
proof -
  have z: "get_task store_a ''zz'' = None" by code_simp
  have da: "map_option dependencies (get_task store_a ''a'') = Some [''x'']" by code_simp
  have x: "\<not> dep_met store_a ''x''" by code_simp
  have db: "map_option dependencies (get_task store_ab ''b'') = Some []" by code_simp
  from da obtain ta where ta: "get_task store_a ''a'' = Some ta" "dependencies ta = [''x'']"
    by auto
  from db obtain tb where tb: "get_task store_ab ''b'' = Some tb" "dependencies tb = []"
    by auto
  from complete_task_cases [of store_a "''zz''"] z
  have r1: "complete_task ''zz'' store_a = (Inl KeyError, store_a)" by blast
  from complete_task_cases [of store_a "''a''"] ta x
  have r2: "complete_task ''a'' store_a = (Inl (RuntimeError [''x'']), store_a)"
    by (simp add: Let_def)
  from complete_task_cases [of store_ab "''b''"] tb
  have r3: "fst (complete_task ''b'' store_ab) = Inr ()
     \<and> get_task (snd (complete_task ''b'' store_ab)) ''b''
         = Some (tb\<lparr> completed := True, progress := 100 \<rparr>)"
    by (simp add: Let_def)
  from r3 have r4: "map_option completed (get_task (snd (complete_task ''b'' store_ab)) ''b'') = Some True"
    "map_option progress (get_task (snd (complete_task ''b'' store_ab)) ''b'') = Some 100"
    by simp_all
  from z r1 da x r2 db r3 r4 show ?thesis by blast
qed

theorem peek_pop_next_witness:
  "map_option task_id (fst (peek_next store_ab)) = Some ''b''
   \<and> map_option completed (fst (peek_next store_ab)) = Some False
   \<and> map_option task_id (fst (pop_next store_ab)) = Some ''b''
   \<and> map_option completed (fst (pop_next store_ab)) = Some False
   \<and> heap init = []
   \<and> fst (peek_next init) = None \<and> fst (pop_next init) = None
   \<and> peek_next (snd (peek_next store_ab)) = peek_next store_ab"
proof -
  have i: "\<forall>x\<in>set (heap init). \<not> is_active (tasks init) x" by (simp add: init_def)
  have pk: "map_option task_id (fst (peek_next store_ab)) = Some ''b''" by code_simp
  have pp: "map_option task_id (fst (pop_next store_ab)) = Some ''b''" by code_simp
  from pk obtain t where t: "fst (peek_next store_ab) = Some t" by auto
  from pp obtain u where u: "fst (pop_next store_ab) = Some u" by auto
  note th = peek_pop_next [of store_ab]
  from th t have c1: "\<not> completed t" by blast
  from th u have c2: "\<not> completed u" by blast
  from th have c8: "peek_next (snd (peek_next store_ab)) = peek_next store_ab" by blast
  from peek_pop_next [of init] i
  have n: "fst (peek_next init) = None" "fst (pop_next init) = None" by blast+
  from t c1 have d1: "map_option completed (fst (peek_next store_ab)) = Some False" by simp
  from u c2 have d2: "map_option completed (fst (pop_next store_ab)) = Some False" by simp
  have e: "heap init = []" by (simp add: init_def)
  from pk d1 pp d2 e n c8 show ?thesis by blast
qed

section \<open>The global schedule\<close>

lemma deadline_score_naive:
  assumes "naive_or_none (deadline t)"
  shows "deadline_score now t
           = Inr (case deadline t of
                    None \<Rightarrow> 0
                  | Some d \<Rightarrow> if timestamp d \<le> now then - 1000 else hours_left now d)"
proof (cases "deadline t")
  case None
  then show ?thesis by (simp add: deadline_score_def)
next
  case (Some d)
  with assms obtain w where w: "d = Naive w"
    by (cases d) (simp_all add: naive_or_none_def)
  have "(round_double (of_int (w - now) / 1000000) \<le> 0) = (w \<le> now)"
    by (simp add: round_double_le_zero divide_le_0_iff)
  with Some w show ?thesis
    by (simp add: deadline_score_def minus_now_def timestamp_def hours_left_def Let_def)
qed

lemma score_scorable:
  assumes "scorable t"
  shows "score now t = Inr (float_score now t)"
proof -
  from assms have n: "naive_or_none (deadline t)"
    and f: "float_of_int (priority t) = Inr (round_double (of_int (priority t)))"
    by (simp_all add: scorable_def float_of_int_def Let_def)
  show ?thesis
    by (simp add: score_def deadline_score_naive [OF n] f float_score_def)
qed

lemma score_all_scorable:
  "list_all scorable (filter (\<lambda>t. \<not> completed t) ts) \<Longrightarrow>
     score_all now ts = Inr (map (\<lambda>t. (float_score now t, t)) (filter (\<lambda>t. \<not> completed t) ts))"
  by (induction ts) (auto simp: score_scorable)

lemma insort_key_fst_map:
  "insort_key fst (f x, x) (map (\<lambda>t. (f t, t)) xs) = map (\<lambda>t. (f t, t)) (insort_key f x xs)"
  by (induction xs) simp_all

lemma sort_key_fst_map:
  "sort_key fst (map (\<lambda>t. (f t, t)) xs) = map (\<lambda>t. (f t, t)) (sort_key f xs)"
  by (induction xs) (simp_all add: insort_key_fst_map)

lemma ai_schedule_sort:
  assumes "list_all scorable (active_tasks m)"
  shows "ai_schedule now m = Inr (map task_id (sort_key (float_score now) (active_tasks m)))"
proof -
  from assms have "score_all now (map snd (tasks m))
      = Inr (map (\<lambda>t. (float_score now t, t)) (active_tasks m))"
    unfolding active_tasks_def by (rule score_all_scorable)
  then show ?thesis
    by (simp add: ai_schedule_def sort_key_fst_map comp_def)
qed

lemma overdue_score: "round_double (5 + round_double (- 1000 / 24)) < 1"
  by code_simp

lemma round_double_small: "round_double 1 = 1" "round_double 5 = 5" "round_double 0 = 0"
  by code_simp+

lemma float_score_example:
  fixes a b :: Task
  assumes "priority a = 1" "deadline a = None"
    and "priority b = 5" "deadline b = Some (Naive (now - hours 1))"
  shows "float_score now a = 1"
    and "float_score now b = round_double (5 + round_double (- 1000 / 24))"
  using assms by (simp_all add: float_score_def round_double_small timestamp_def hours_def)

text \<open>
  Claim C7, amended. The score the code computes for a task whose deadline is absent or
  naive (and whose priority converts to a float) is \<open>float_score\<close>: the priority plus the
  urgency over 24 in double-precision arithmetic, each operation rounded, where the
  urgency is \<open>-1000\<close> when the deadline is at or before now (not only strictly before it),
  the hours that remain when it is later, and \<open>0\<close> without a deadline. When every task that
  is not completed is such a task, \<open>ai_schedule\<close> returns the identifiers of exactly the
  tasks that are not completed, in ascending order of that rounded score, tasks of equal
  rounded score in the order of the store (a stable sort). A task of priority 5 that is
  one hour overdue scores \<open>5 + (-1000 / 24.0)\<close>, below the score 1 of a task of priority 1
  without a deadline.
\<close>

theorem ai_schedule_stable_sorted:
  fixes t a b :: Task
  shows
  "(scorable t \<longrightarrow> score now t = Inr (float_score now t))
   \<and> (list_all scorable (active_tasks m) \<longrightarrow>
        (\<exists>ts. ai_schedule now m = Inr (map task_id ts)
             \<and> mset ts = mset (active_tasks m)
             \<and> sorted (map (float_score now) ts)
             \<and> (\<forall>k. filter (\<lambda>u. float_score now u = k) ts
                     = filter (\<lambda>u. float_score now u = k) (active_tasks m))))
   \<and> (priority a = 1 \<and> deadline a = None
        \<and> priority b = 5 \<and> deadline b = Some (Naive (now - hours 1)) \<longrightarrow>
        float_score now a = 1
        \<and> float_score now b = round_double (5 + round_double (- 1000 / 24))
        \<and> float_score now b < float_score now a)"
proof -
  have c1: "scorable t \<longrightarrow> score now t = Inr (float_score now t)"
    by (simp add: score_scorable)
  have c2: "list_all scorable (active_tasks m) \<longrightarrow>
        (\<exists>ts. ai_schedule now m = Inr (map task_id ts)
             \<and> mset ts = mset (active_tasks m)
             \<and> sorted (map (float_score now) ts)
             \<and> (\<forall>k. filter (\<lambda>u. float_score now u = k) ts
                     = filter (\<lambda>u. float_score now u = k) (active_tasks m)))"
  proof
    assume s: "list_all scorable (active_tasks m)"
    let ?ts = "sort_key (float_score now) (active_tasks m)"
    have "ai_schedule now m = Inr (map task_id ?ts)" by (rule ai_schedule_sort [OF s])
    moreover have "mset ?ts = mset (active_tasks m)" by simp
    moreover have "sorted (map (float_score now) ?ts)" by (rule sorted_sort_key)
    moreover have "\<forall>k. filter (\<lambda>u. float_score now u = k) ?ts
                     = filter (\<lambda>u. float_score now u = k) (active_tasks m)"
      by (simp add: sort_key_stable)
    ultimately show "\<exists>ts. ai_schedule now m = Inr (map task_id ts)
             \<and> mset ts = mset (active_tasks m)
             \<and> sorted (map (float_score now) ts)
             \<and> (\<forall>k. filter (\<lambda>u. float_score now u = k) ts
                     = filter (\<lambda>u. float_score now u = k) (active_tasks m))"
      by blast
  qed
  have c3: "priority a = 1 \<and> deadline a = None
        \<and> priority b = 5 \<and> deadline b = Some (Naive (now - hours 1)) \<longrightarrow>
        float_score now a = 1
        \<and> float_score now b = round_double (5 + round_double (- 1000 / 24))
        \<and> float_score now b < float_score now a"
    using float_score_example [of a b now] overdue_score by simp
  show ?thesis by (intro conjI; fact)
qed

theorem ai_schedule_stable_sorted_witness:
  "list_all scorable (active_tasks store_sched)
   \<and> map_option priority (get_task store_sched ''free'') = Some 1
   \<and> map_option deadline (get_task store_sched ''free'') = Some None
   \<and> map_option priority (get_task store_sched ''late'') = Some 5
   \<and> map_option deadline (get_task store_sched ''late'')
       = Some (Some (Naive (days 1 + hours 1 - hours 1)))
   \<and> map_option (float_score (days 1 + hours 1)) (get_task store_sched ''free'') = Some 1
   \<and> map_option (float_score (days 1 + hours 1)) (get_task store_sched ''late'')
       = Some (round_double (5 + round_double (- 1000 / 24)))
   \<and> map_option (score (days 1 + hours 1)) (get_task store_sched ''late'')
       = Some (Inr (round_double (5 + round_double (- 1000 / 24))))
   \<and> ai_schedule (days 1 + hours 1) store_sched = Inr [''late'', ''free'']
   \<and> list_all scorable (active_tasks store_tie)
   \<and> map task_id (active_tasks store_tie) = [''far'', ''near'']
   \<and> ai_schedule (- hours 1) store_tie = Inr [''near'', ''far'']"
proof -
  have sc: "list_all scorable (active_tasks store_sched)" by code_simp
  have pa: "map_option priority (get_task store_sched ''free'') = Some 1" by code_simp
  have da: "map_option deadline (get_task store_sched ''free'') = Some None" by code_simp
  have pb: "map_option priority (get_task store_sched ''late'') = Some 5" by code_simp
  have db: "map_option deadline (get_task store_sched ''late'')
              = Some (Some (Naive (days 1 + hours 1 - hours 1)))" by code_simp
  have sb: "map_option scorable (get_task store_sched ''late'') = Some True" by code_simp
  have r: "ai_schedule (days 1 + hours 1) store_sched = Inr [''late'', ''free'']" by code_simp
  have st: "list_all scorable (active_tasks store_tie)" by code_simp
  have it: "map task_id (active_tasks store_tie) = [''far'', ''near'']" by code_simp
  have rt: "ai_schedule (- hours 1) store_tie = Inr [''near'', ''far'']" by code_simp
  from pa da obtain ta where ta: "get_task store_sched ''free'' = Some ta"
    "priority ta = 1" "deadline ta = None" by auto
  from pb db sb obtain tb where tb: "get_task store_sched ''late'' = Some tb"
    "priority tb = 5" "deadline tb = Some (Naive (days 1 + hours 1 - hours 1))" "scorable tb"
    by auto
  note th = ai_schedule_stable_sorted [where now = "days 1 + hours 1" and a = ta and b = tb
                                         and t = tb]
  from th ta tb have va: "float_score (days 1 + hours 1) ta = 1"
    and vb: "float_score (days 1 + hours 1) tb = round_double (5 + round_double (- 1000 / 24))"
    and vs: "score (days 1 + hours 1) tb = Inr (float_score (days 1 + hours 1) tb)"
    by blast+
  from ta va have wa: "map_option (float_score (days 1 + hours 1)) (get_task store_sched ''free'')
      = Some 1" by simp
  from tb vb have wb: "map_option (float_score (days 1 + hours 1)) (get_task store_sched ''late'')
      = Some (round_double (5 + round_double (- 1000 / 24)))" by simp
  from tb vb vs have ws: "map_option (score (days 1 + hours 1)) (get_task store_sched ''late'')
      = Some (Inr (round_double (5 + round_double (- 1000 / 24))))" by simp
  from sc pa da pb db wa wb ws r st it rt show ?thesis by blast
qed

text \<open>
  Claim C7 as stated fails at a deadline equal to now: the code gives the task \<^verbatim>\<open>x\<close> the
  urgency \<open>-1000\<close> and ranks it first, where the score of the specification ranks it last.
  It fails for a stored deadline that carries a zone, too: the subtraction raises
  \<^verbatim>\<open>TypeError\<close> and no schedule is returned.
\<close>

theorem schedule_boundary_counterexample:
  "ai_schedule 0 store_yx = Inr [''x'', ''y'']
   \<and> spec_schedule 0 store_yx = [''y'', ''x'']
   \<and> map_option deadline (get_task store_aware ''z'') = Some (Some (Aware 0 0))
   \<and> map task_id (active_tasks store_aware) = [''z'']
   \<and> ai_schedule 0 store_aware = Inl TypeError"
  by code_simp

section \<open>The index after a mutation\<close>


























section \<open>Export and import\<close>

lemma parse_opt_roundtrip:
  "date_roundtrip e d \<Longrightarrow> parse_opt e (Some (isoformat e d)) = Inr (Some d)"
  by (simp add: parse_opt_def date_roundtrip_def)

lemma from_dict_to_dict:
  assumes "dates_roundtrip e t"
  shows "from_dict e uid now (to_dict e t) = Inr t"
proof -
  from assms have c: "parse_opt e (Some (isoformat e (created_at t))) = Inr (Some (created_at t))"
    by (simp add: dates_roundtrip_def parse_opt_roundtrip)
  from assms have d: "parse_opt e (map_option (isoformat e) (deadline t)) = Inr (deadline t)"
    by (cases "deadline t") (simp_all add: dates_roundtrip_def date_roundtrip_def parse_opt_def)
  show ?thesis
    by (simp add: from_dict_def to_dict_def c d get_or_def)
qed

lemma load_tasks_to_dict:
  "list_all (dates_roundtrip e) ts \<Longrightarrow>
     load_tasks e uids nows i (map (to_dict e) ts) acc
       = (None, fold (\<lambda>t acc'. AList.update (task_id t) t acc') ts acc)"
  by (induction ts arbitrary: i acc) (simp_all add: from_dict_to_dict)

lemma update_fresh: "k \<notin> fst ` set al \<Longrightarrow> AList.update k v al = al @ [(k, v)]"
  by (induction al) auto

lemma fold_update_keyed:
  "distinct (map fst (acc @ kts)) \<Longrightarrow> list_all (\<lambda>kt. task_id (snd kt) = fst kt) kts \<Longrightarrow>
     fold (\<lambda>t acc'. AList.update (task_id t) t acc') (map snd kts) acc = acc @ kts"
proof (induction kts arbitrary: acc)
  case Nil
  then show ?case by simp
next
  case (Cons kt kts)
  from Cons.prems have k: "task_id (snd kt) = fst kt" and f: "fst kt \<notin> fst ` set acc"
    by auto
  from f have u: "AList.update (fst kt) (snd kt) acc = acc @ [kt]"
    by (simp add: update_fresh)
  from Cons.prems have "distinct (map fst ((acc @ [kt]) @ kts))" by simp
  moreover from Cons.prems have "list_all (\<lambda>kt. task_id (snd kt) = fst kt) kts" by simp
  ultimately have "fold (\<lambda>t acc'. AList.update (task_id t) t acc') (map snd kts) (acc @ [kt])
      = (acc @ [kt]) @ kts"
    by (rule Cons.IH)
  then show ?case by (simp add: k u)
qed

text \<open>
  Claim C6, amended. For every store, empty or populated, in which each task is stored once
  and under its own identifier, and whose creation times and deadlines the date parser
  reads back from their ISO text, importing the exported snapshot (into any manager)
  returns and yields exactly the exported list of tasks: the same identifiers in the same
  order, each task equal in every field, the absent deadline and the absent estimate
  included.
\<close>

theorem export_import_roundtrip:
  assumes "keyed_by_id m" and "list_all (dates_roundtrip e) (map snd (tasks m))"
  shows "fst (import_json e uids nows (export_json e m) m0) = Inr ()
         \<and> tasks (snd (import_json e uids nows (export_json e m) m0)) = tasks m"
proof -
  from assms(2) have l: "load_tasks e uids nows 0 (map (to_dict e) (map snd (tasks m))) []
      = (None, fold (\<lambda>t acc'. AList.update (task_id t) t acc') (map snd (tasks m)) [])"
    by (rule load_tasks_to_dict)
  from assms(1) have "fold (\<lambda>t acc'. AList.update (task_id t) t acc') (map snd (tasks m)) []
      = [] @ tasks m"
    by (intro fold_update_keyed) (simp_all add: keyed_by_id_def)
  with l have "load_tasks e uids nows 0 (map (to_dict e) (map snd (tasks m))) [] = (None, tasks m)"
    by simp
  then show ?thesis
    by (simp add: import_json_def export_json_def json_dumps_def json_loads_def get_or_def
        tasks_rebuild_heap)
qed

theorem export_import_roundtrip_witness:
  "keyed_by_id store_ab \<and> list_all (dates_roundtrip example_env) (map snd (tasks store_ab))
   \<and> map fst (tasks store_ab) = [''a'', ''b'']
   \<and> fst (import_json example_env (\<lambda>i. ''u'') (\<lambda>i. 0) (export_json example_env store_ab) init)
       = Inr ()
   \<and> tasks (snd (import_json example_env (\<lambda>i. ''u'') (\<lambda>i. 0)
                   (export_json example_env store_ab) init)) = tasks store_ab
   \<and> keyed_by_id init \<and> tasks init = []
   \<and> tasks (snd (import_json example_env (\<lambda>i. ''u'') (\<lambda>i. 0)
                   (export_json example_env init) store_ab)) = []"
proof -
  have k: "keyed_by_id store_ab" by code_simp
  have d: "list_all (dates_roundtrip example_env) (map snd (tasks store_ab))" by code_simp
  have n: "map fst (tasks store_ab) = [''a'', ''b'']" by code_simp
  have k0: "keyed_by_id init" by (simp add: keyed_by_id_def init_def)
  have d0: "list_all (dates_roundtrip example_env) (map snd (tasks init))" by (simp add: init_def)
  have t0: "tasks init = []" by (simp add: init_def)
  from export_import_roundtrip [OF k d, of "\<lambda>i. ''u''" "\<lambda>i. 0" init]
       export_import_roundtrip [OF k0 d0, of "\<lambda>i. ''u''" "\<lambda>i. 0" store_ab] k d n k0 t0
  show ?thesis by simp
qed

text \<open>
  Claim C6 as stated fails on the store in which \<open>update_task\<close> has renamed the task
  \<^verbatim>\<open>b\<close> to \<^verbatim>\<open>a\<close>: the snapshot holds two records of identifier \<^verbatim>\<open>a\<close>, and the import
  keeps one task of the two.
\<close>

theorem export_import_counterexample:
  "list_all (dates_roundtrip example_env) (map snd (tasks store_dup))
   \<and> map fst (tasks store_dup) = [''a'', ''b'']
   \<and> map (\<lambda>kt. task_id (snd kt)) (tasks store_dup) = [''a'', ''a'']
   \<and> fst (import_json example_env (\<lambda>i. ''u'') (\<lambda>i. 0) (export_json example_env store_dup)
            store_dup) = Inr ()
   \<and> map fst (tasks (snd (import_json example_env (\<lambda>i. ''u'') (\<lambda>i. 0)
                            (export_json example_env store_dup) store_dup))) = [''a'']"
  by code_simp

section \<open>Failing operations\<close>


lemma set_field_error:
  "set_field e f t = Inl err \<Longrightarrow>
     \<exists>v. f = Deadline (Some v) \<and> v \<noteq> [] \<and> parse e v = None \<and> err = ParserError v"
  by (cases f) (auto simp: parse_opt_def split: option.splits if_splits)






lemma import_json_error_heap:
  "fst (import_json e uids nows js m) = Inl err \<Longrightarrow>
     heap (snd (import_json e uids nows js m)) = heap m"
  by (auto simp: import_json_def split: option.splits prod.splits)





section \<open>Completion and progress outside \<open>complete_task\<close>\<close>

text \<open>
  Claim C1, at a failing input. The task \<^verbatim>\<open>a\<close> depends on \<^verbatim>\<open>x\<close>, which is not in the
  store. \<open>complete_task\<close> refuses to complete it; \<open>set_progress\<close> with 100 and
  \<open>update_task\<close> with \<^verbatim>\<open>completed=True\<close> both return and leave it completed.
\<close>

theorem set_progress_skips_dependencies:
  "map_option dependencies (get_task store_a ''a'') = Some [''x'']
   \<and> get_task store_a ''x'' = None
   \<and> fst (complete_task ''a'' store_a) = Inl (RuntimeError [''x''])
   \<and> fst (set_progress ''a'' 100 store_a) = Inr ()
   \<and> map_option completed (get_task (snd (set_progress ''a'' 100 store_a)) ''a'') = Some True
   \<and> map_option completed
        (get_task (snd (update_task example_env ''a'' [Completed True] store_a)) ''a'')
       = Some True"
  by code_simp

text \<open>
  Claim C2, at a failing input. \<open>update_task\<close> writes the progress 150 as it is, and writes
  the progress 100 without completing the task, where \<open>set_progress\<close> clamps 150 to 100
  and completes the task.
\<close>

theorem update_task_progress_unchecked:
  "map_option progress
     (get_task (snd (update_task example_env ''a'' [Progress 150] store_a)) ''a'') = Some 150
   \<and> map_option progress
        (get_task (snd (update_task example_env ''a'' [Progress 100] store_a)) ''a'') = Some 100
   \<and> map_option completed
        (get_task (snd (update_task example_env ''a'' [Progress 100] store_a)) ''a'') = Some False
   \<and> map_option progress (get_task (snd (set_progress ''a'' 150 store_a)) ''a'') = Some 100
   \<and> map_option completed (get_task (snd (set_progress ''a'' 150 store_a)) ''a'') = Some True"
  by code_simp

end
